theory Spec2Isabelle
  imports Main
begin

section \<open>Data of the chat session\<close>

text \<open>
  A JavaScript object property is either not there, there and holding \<open>undefined\<close>, or
  there and holding a value. Object spread copies the last two and skips the first.
\<close>

datatype 'a field = Absent | Undefined | Val 'a

datatype part = TextPart string | OtherPart nat

record content =
  parts :: "part list field"
  role :: "string field"

record candidate =
  content :: "content option"
  finishReason :: "string option"

record response =
  candidates :: "candidate list option"
  promptFeedback :: "string option"

record generate_content_result =
  response :: response

type_synonym pid = nat

text \<open>The result of a streaming call: a stream handle and the promise of the final response.\<close>

record generate_content_stream_result =
  stream :: nat
  response_promise :: pid

datatype error = Error string | TypeError string

fun message :: "error \<Rightarrow> string" where
  "message (Error m) = m"
| "message (TypeError m) = m"

definition SILENT_ERROR :: string where
  "SILENT_ERROR = ''SILENT_ERROR''"

datatype jsval = JUndefined | JNum int | JStr string

text \<open>Request options are plain objects: a map from property names to values.\<close>

type_synonym options = "string \<rightharpoonup> jsval"

datatype request = RequestString string | RequestArray "(string + part) list"

record start_chat_params =
  history :: "content list option"
  safetySettings :: "string option"
  generationConfig :: "string option"
  tools :: "string option"
  toolConfig :: "string option"
  systemInstruction :: "string option"
  cachedContent :: "string option"

record generate_content_request =
  req_safetySettings :: "string option"
  req_generationConfig :: "string option"
  req_tools :: "string option"
  req_toolConfig :: "string option"
  req_systemInstruction :: "string option"
  req_cachedContent :: "string option"
  contents :: "content list"

text \<open>
  The functions imported from \<open>request-helpers\<close>, \<open>response-helpers\<close> and
  \<open>chat-session-helpers\<close> are parameters of the model.
\<close>

record collaborators =
  formatNewContent :: "request \<Rightarrow> error + content"
  isValidResponse :: "response \<Rightarrow> bool"
  formatBlockErrorMessage :: "response \<Rightarrow> string option"
  validateChatHistory :: "content list \<Rightarrow> error option"

section \<open>Promises and the microtask queue\<close>

datatype val =
    VUndefined
  | VResult generate_content_result
  | VStreamResult generate_content_stream_result
  | VResponse response
  | VHistory "content list"
  | VPromise pid

datatype outcome = Ok val | Thrown error

text \<open>The points at which the three async methods resume after an \<open>await\<close>.\<close>

datatype cont =
    K_getHistory pid
  | K_sendMessage pid request options
  | K_sendMessage_return pid
  | K_sendMessageStream pid request options

text \<open>
  The callbacks handed to \<open>then\<close> and \<open>catch\<close>, one constructor for each arrow function of
  the source, together with the callbacks of the promise machinery itself.
\<close>

datatype handler =
    NoHandler
  | ResolveFn pid
  | RejectFn pid
  | Resume cont
  | OnGenerate generate_content_request options
  | OnAdmit content pid
  | OnReset
  | OnStream pid
  | OnSilent
  | OnResponse
  | OnAdmitStream content
  | OnFinalCatch

datatype reaction = Reaction handler handler "pid option"

datatype pstate = Pending "reaction list" | Fulfilled val | Rejected error

datatype job = ReactionJob handler outcome "pid option" | ThenableJob pid pid

datatype call_kind = Unary | Streaming

record remote_call =
  call_kind :: call_kind
  call_apiKey :: string
  call_model :: string
  call_request :: generate_content_request
  call_options :: options
  call_promise :: pid

datatype log = Warn string | ConsoleError error

text \<open>
  The session object with the runtime it lives in: the promise store, the microtask
  queue, the remote calls dispatched so far, the response promises of the opened streams,
  the console, and the \<open>finalResult\<close> variable of each \<open>sendMessage\<close> invocation (keyed by
  the promise that invocation returned).
\<close>

record session =
  apiKey :: string
  model :: string
  params :: "start_chat_params option"
  requestOptions :: options
  chat_history :: "content list"
  sendPromise :: pid
  promises :: "pid \<Rightarrow> pstate"
  next_pid :: pid
  jobs :: "job list"
  finalResult :: "pid \<Rightarrow> generate_content_result option"
  calls :: "remote_call list"
  responses :: "pid list"
  console :: "log list"

definition new_promise :: "pstate \<Rightarrow> session \<Rightarrow> pid \<times> session" where
  "new_promise st s =
     (next_pid s, s\<lparr>promises := (promises s)(next_pid s := st), next_pid := Suc (next_pid s)\<rparr>)"

definition enqueue :: "job \<Rightarrow> session \<Rightarrow> session" where
  "enqueue j s = s\<lparr>jobs := jobs s @ [j]\<rparr>"

fun reaction_job :: "outcome \<Rightarrow> reaction \<Rightarrow> job" where
  "reaction_job (Ok v) (Reaction f r d) = ReactionJob f (Ok v) d"
| "reaction_job (Thrown e) (Reaction f r d) = ReactionJob r (Thrown e) d"

fun settled :: "outcome \<Rightarrow> pstate" where
  "settled (Ok v) = Fulfilled v"
| "settled (Thrown e) = Rejected e"

text \<open>Fulfil or reject a pending promise and queue its reactions in their order.\<close>

definition settle :: "pid \<Rightarrow> outcome \<Rightarrow> session \<Rightarrow> session" where
  "settle p out s =
     (case promises s p of
        Pending rs \<Rightarrow>
          s\<lparr>promises := (promises s)(p := settled out), jobs := jobs s @ map (reaction_job out) rs\<rparr>
      | Fulfilled v \<Rightarrow> s
      | Rejected e \<Rightarrow> s)"

text \<open>
  The resolve function of a promise: a promise given as the value is adopted through a
  job of its own, any other value fulfils.
\<close>

definition resolve :: "pid \<Rightarrow> val \<Rightarrow> session \<Rightarrow> session" where
  "resolve p v s =
     (case v of
        VPromise x \<Rightarrow>
          if x = p then settle p (Thrown (TypeError ''Chaining cycle detected for promise'')) s
          else enqueue (ThenableJob p x) s
      | _ \<Rightarrow> settle p (Ok v) s)"

definition complete :: "pid \<Rightarrow> outcome \<Rightarrow> session \<Rightarrow> session" where
  "complete p out s = (case out of Ok v \<Rightarrow> resolve p v s | Thrown e \<Rightarrow> settle p (Thrown e) s)"

definition perform_then :: "pid \<Rightarrow> reaction \<Rightarrow> session \<Rightarrow> session" where
  "perform_then p rc s =
     (case promises s p of
        Pending rs \<Rightarrow> s\<lparr>promises := (promises s)(p := Pending (rs @ [rc]))\<rparr>
      | Fulfilled v \<Rightarrow> enqueue (reaction_job (Ok v) rc) s
      | Rejected e \<Rightarrow> enqueue (reaction_job (Thrown e) rc) s)"

text \<open>\<open>p.then(f, r)\<close>; \<open>p.catch(r)\<close> is \<open>p.then(undefined, r)\<close>.\<close>

definition promise_then :: "pid \<Rightarrow> handler \<Rightarrow> handler \<Rightarrow> session \<Rightarrow> pid \<times> session" where
  "promise_then p f r s =
     (let (q, s1) = new_promise (Pending []) s
      in (q, perform_then p (Reaction f r (Some q)) s1))"

text \<open>
  \<open>await p\<close> of a native promise, as ECMAScript 2017 defines it: the continuation is a
  reaction of \<open>p\<close> without a derived promise, so it runs in a later microtask even when
  \<open>p\<close> is already settled.
\<close>

definition await :: "pid \<Rightarrow> cont \<Rightarrow> session \<Rightarrow> session" where
  "await p k s = perform_then p (Reaction (Resume k) (Resume k) None) s"

text \<open>\<open>Promise.resolve()\<close>\<close>

definition Promise_resolve :: "session \<Rightarrow> pid \<times> session" where
  "Promise_resolve s = new_promise (Fulfilled VUndefined) s"

section \<open>The remote calls\<close>

text \<open>
  \<open>generateContent\<close> and \<open>generateContentStream\<close> are async functions of another module:
  a call is recorded with its arguments and returns a pending promise, which the
  environment settles later.
\<close>

definition remote :: "call_kind \<Rightarrow> generate_content_request \<Rightarrow> options \<Rightarrow> session \<Rightarrow> pid \<times> session" where
  "remote k req opts s =
     (let (g, s1) = new_promise (Pending []) s
      in (g, s1\<lparr>calls := calls s1 @
            [\<lparr>call_kind = k, call_apiKey = apiKey s, call_model = model s,
              call_request = req, call_options = opts, call_promise = g\<rparr>]\<rparr>))"

definition generateContent :: "generate_content_request \<Rightarrow> options \<Rightarrow> session \<Rightarrow> pid \<times> session" where
  "generateContent = remote Unary"

definition generateContentStream :: "generate_content_request \<Rightarrow> options \<Rightarrow> session \<Rightarrow> pid \<times> session" where
  "generateContentStream = remote Streaming"

section \<open>ChatSession\<close>

definition default_options :: "options option \<Rightarrow> options" where
  "default_options opts = (case opts of None \<Rightarrow> Map.empty | Some m \<Rightarrow> m)"

text \<open>The constructor; \<open>params?.history\<close> is truthy for every array, the empty one too.\<close>

definition ChatSession ::
  "collaborators \<Rightarrow> string \<Rightarrow> string \<Rightarrow> start_chat_params option \<Rightarrow> options option \<Rightarrow> error + session" where
  "ChatSession C key m ps ropts =
     (let s0 = \<lparr>apiKey = key, model = m, params = ps, requestOptions = default_options ropts,
                chat_history = [], sendPromise = 0,
                promises = (\<lambda>_. Pending [])(0 := Fulfilled VUndefined), next_pid = 1,
                jobs = [], finalResult = Map.empty, calls = [], responses = [], console = []\<rparr>
      in case ps of
           None \<Rightarrow> Inr s0
         | Some p \<Rightarrow>
             (case history p of
                None \<Rightarrow> Inr s0
              | Some h \<Rightarrow>
                  (case validateChatHistory C h of
                     Some e \<Rightarrow> Inl e
                   | None \<Rightarrow> Inr (s0\<lparr>chat_history := h\<rparr>))))"

text \<open>\<open>this.params?.f\<close>\<close>

definition param :: "(start_chat_params \<Rightarrow> 'a option) \<Rightarrow> session \<Rightarrow> 'a option" where
  "param f s = (case params s of None \<Rightarrow> None | Some p \<Rightarrow> f p)"

definition build_request :: "content \<Rightarrow> session \<Rightarrow> generate_content_request" where
  "build_request newContent s =
     \<lparr>req_safetySettings = param safetySettings s,
      req_generationConfig = param generationConfig s,
      req_tools = param tools s,
      req_toolConfig = param toolConfig s,
      req_systemInstruction = param systemInstruction s,
      req_cachedContent = param cachedContent s,
      contents = chat_history s @ [newContent]\<rparr>"

text \<open>\<open>{...this._requestOptions, ...requestOptions}\<close>\<close>

definition merge_options :: "options \<Rightarrow> options \<Rightarrow> options" where
  "merge_options session_opts call_opts = session_opts ++ call_opts"

text \<open>Object spread of a content over a base object; spreading \<open>undefined\<close> adds nothing.\<close>

definition spread :: "content \<Rightarrow> content option \<Rightarrow> content" where
  "spread base c =
     (case c of
        None \<Rightarrow> base
      | Some x \<Rightarrow>
          \<lparr>parts = (if parts x = Absent then parts base else parts x),
           role = (if role x = Absent then role base else role x)\<rparr>)"

text \<open>\<open>response.candidates?.[0].content\<close>: only a missing \<open>candidates\<close> short-circuits.\<close>

definition first_content_optional :: "response \<Rightarrow> error + content option" where
  "first_content_optional r =
     (case candidates r of
        None \<Rightarrow> Inr None
      | Some [] \<Rightarrow> Inl (TypeError ''Cannot read properties of undefined (reading content)'')
      | Some (c # cs) \<Rightarrow> Inr (content c))"

text \<open>\<open>response.candidates[0].content\<close>\<close>

definition first_content :: "response \<Rightarrow> error + content option" where
  "first_content r =
     (case candidates r of
        None \<Rightarrow> Inl (TypeError ''Cannot read properties of undefined (reading 0)'')
      | Some [] \<Rightarrow> Inl (TypeError ''Cannot read properties of undefined (reading content)'')
      | Some (c # cs) \<Rightarrow> Inr (content c))"

definition push :: "content \<Rightarrow> session \<Rightarrow> session" where
  "push c s = s\<lparr>chat_history := chat_history s @ [c]\<rparr>"

text \<open>The \<open>else\<close> branch of both admission steps; a string is truthy when it is not empty.\<close>

definition warn_blocked :: "collaborators \<Rightarrow> string \<Rightarrow> response \<Rightarrow> session \<Rightarrow> session" where
  "warn_blocked C name r s =
     (case formatBlockErrorMessage C r of
        None \<Rightarrow> s
      | Some blockErrorMessage \<Rightarrow>
          if blockErrorMessage \<noteq> [] then
            s\<lparr>console := console s @
               [Warn (name @ ''() was unsuccessful. '' @ blockErrorMessage @
                      ''. Inspect response object for details.'')]\<rparr>
          else s)"

text \<open>The model turn of \<open>sendMessage\<close> (lines 113 to 118).\<close>

definition unary_responseContent :: "content option \<Rightarrow> content" where
  "unary_responseContent c = spread \<lparr>parts = Val [], role = Val ''model''\<rparr> c"

text \<open>The admission step of \<open>sendMessage\<close> (lines 110 to 129).\<close>

definition admit :: "collaborators \<Rightarrow> content \<Rightarrow> pid \<Rightarrow> generate_content_result \<Rightarrow> session \<Rightarrow> outcome \<times> session" where
  "admit C newContent rp result s =
     (if isValidResponse C (response result) then
        (let s1 = push newContent s
         in case first_content_optional (response result) of
              Inl e \<Rightarrow> (Thrown e, s1)
            | Inr c \<Rightarrow>
                (let s2 = push (unary_responseContent c) s1
                 in (Ok VUndefined, s2\<lparr>finalResult := (finalResult s2)(rp \<mapsto> result)\<rparr>)))
      else
        (let s1 = warn_blocked C ''sendMessage'' (response result) s
         in (Ok VUndefined, s1\<lparr>finalResult := (finalResult s1)(rp \<mapsto> result)\<rparr>)))"

text \<open>\<open>!responseContent.role\<close>\<close>

definition role_falsy :: "content \<Rightarrow> bool" where
  "role_falsy c = (role c = Absent \<or> role c = Undefined \<or> role c = Val [])"

text \<open>The model turn of \<open>sendMessageStream\<close> (lines 186 to 190).\<close>

definition stream_responseContent :: "content option \<Rightarrow> content" where
  "stream_responseContent c =
     (let responseContent = spread \<lparr>parts = Absent, role = Absent\<rparr> c
      in if role_falsy responseContent then responseContent\<lparr>role := Val ''model''\<rparr>
         else responseContent)"

text \<open>The admission step of \<open>sendMessageStream\<close> (lines 183 to 200).\<close>

definition admit_stream :: "collaborators \<Rightarrow> content \<Rightarrow> response \<Rightarrow> session \<Rightarrow> outcome \<times> session" where
  "admit_stream C newContent r s =
     (if isValidResponse C r then
        (let s1 = push newContent s
         in case first_content r of
              Inl e \<Rightarrow> (Thrown e, s1)
            | Inr c \<Rightarrow> (Ok VUndefined, push (stream_responseContent c) s1))
      else (Ok VUndefined, warn_blocked C ''sendMessageStream'' r s))"

text \<open>The \<open>catch\<close> of \<open>sendMessage\<close> (lines 130 to 134).\<close>

definition reset_chain :: "error \<Rightarrow> session \<Rightarrow> outcome \<times> session" where
  "reset_chain e s = (let (p, s1) = Promise_resolve s in (Thrown e, s1\<lparr>sendPromise := p\<rparr>))"

text \<open>The last \<open>catch\<close> of \<open>sendMessageStream\<close> (lines 201 to 210).\<close>

definition final_catch :: "error \<Rightarrow> session \<Rightarrow> outcome \<times> session" where
  "final_catch e s =
     (if message e \<noteq> SILENT_ERROR then (Ok VUndefined, s\<lparr>console := console s @ [ConsoleError e]\<rparr>)
      else (Ok VUndefined, s))"

text \<open>
  \<open>getHistory\<close> after its \<open>await\<close> (line 69). The source returns the array itself;
  the value here is what the array holds at that moment.
\<close>

definition getHistory_resume :: "pid \<Rightarrow> session \<Rightarrow> session" where
  "getHistory_resume rp s = resolve rp (VHistory (chat_history s)) s"

text \<open>\<open>sendMessage\<close> from line 85 to the \<open>await\<close> of line 135.\<close>

definition sendMessage_body :: "collaborators \<Rightarrow> pid \<Rightarrow> request \<Rightarrow> options \<Rightarrow> session \<Rightarrow> session" where
  "sendMessage_body C rp request opts s =
     (case formatNewContent C request of
        Inl e \<Rightarrow> settle rp (Thrown e) s
      | Inr newContent \<Rightarrow>
          (let generateContentRequest = build_request newContent s;
               chatSessionRequestOptions = merge_options (requestOptions s) opts;
               (q1, s1) = promise_then (sendPromise s)
                            (OnGenerate generateContentRequest chatSessionRequestOptions) NoHandler s;
               (q2, s2) = promise_then q1 (OnAdmit newContent rp) NoHandler s1;
               (q3, s3) = promise_then q2 NoHandler OnReset s2;
               s4 = s3\<lparr>sendPromise := q3\<rparr>
           in await (sendPromise s4) (K_sendMessage_return rp) s4))"

text \<open>\<open>return finalResult\<close> (line 136).\<close>

definition sendMessage_return :: "pid \<Rightarrow> session \<Rightarrow> session" where
  "sendMessage_return rp s =
     resolve rp (case finalResult s rp of None \<Rightarrow> VUndefined | Some result \<Rightarrow> VResult result) s"

text \<open>\<open>sendMessageStream\<close> from line 153 to its \<open>return\<close>.\<close>

definition sendMessageStream_body :: "collaborators \<Rightarrow> pid \<Rightarrow> request \<Rightarrow> options \<Rightarrow> session \<Rightarrow> session" where
  "sendMessageStream_body C rp request opts s =
     (case formatNewContent C request of
        Inl e \<Rightarrow> settle rp (Thrown e) s
      | Inr newContent \<Rightarrow>
          (let generateContentRequest = build_request newContent s;
               chatSessionRequestOptions = merge_options (requestOptions s) opts;
               (streamPromise, s0) =
                  generateContentStream generateContentRequest chatSessionRequestOptions s;
               (q1, s1) = promise_then (sendPromise s0) (OnStream streamPromise) NoHandler s0;
               (q2, s2) = promise_then q1 NoHandler OnSilent s1;
               (q3, s3) = promise_then q2 OnResponse NoHandler s2;
               (q4, s4) = promise_then q3 (OnAdmitStream newContent) NoHandler s3;
               (q5, s5) = promise_then q4 NoHandler OnFinalCatch s4;
               s6 = s5\<lparr>sendPromise := q5\<rparr>
           in resolve rp (VPromise streamPromise) s6))"

text \<open>An async function resumes with the awaited value, or rejects its promise when the
  awaited promise was rejected: none of the three methods has a \<open>try\<close>.\<close>

fun resume :: "collaborators \<Rightarrow> cont \<Rightarrow> outcome \<Rightarrow> session \<Rightarrow> session" where
  "resume C (K_getHistory rp) (Ok v) s = getHistory_resume rp s"
| "resume C (K_getHistory rp) (Thrown e) s = settle rp (Thrown e) s"
| "resume C (K_sendMessage rp request opts) (Ok v) s = sendMessage_body C rp request opts s"
| "resume C (K_sendMessage rp request opts) (Thrown e) s = settle rp (Thrown e) s"
| "resume C (K_sendMessage_return rp) (Ok v) s = sendMessage_return rp s"
| "resume C (K_sendMessage_return rp) (Thrown e) s = settle rp (Thrown e) s"
| "resume C (K_sendMessageStream rp request opts) (Ok v) s = sendMessageStream_body C rp request opts s"
| "resume C (K_sendMessageStream rp request opts) (Thrown e) s = settle rp (Thrown e) s"

definition type_error :: error where
  "type_error = TypeError ''Cannot read properties of undefined''"

text \<open>
  Calling a handler with the outcome of the promise it was attached to. A missing handler
  passes the outcome on. The last equation is a callback given an outcome it is never
  attached to, or a value of another type than the remote calls produce.
\<close>

fun call_handler :: "collaborators \<Rightarrow> handler \<Rightarrow> outcome \<Rightarrow> session \<Rightarrow> outcome \<times> session" where
  "call_handler C NoHandler out s = (out, s)"
| "call_handler C (ResolveFn p) (Ok v) s = (Ok VUndefined, resolve p v s)"
| "call_handler C (RejectFn p) (Thrown e) s = (Ok VUndefined, settle p (Thrown e) s)"
| "call_handler C (Resume k) out s = (Ok VUndefined, resume C k out s)"
| "call_handler C (OnGenerate req opts) (Ok v) s =
     (let (g, s1) = generateContent req opts s in (Ok (VPromise g), s1))"
| "call_handler C (OnAdmit newContent rp) (Ok (VResult result)) s = admit C newContent rp result s"
| "call_handler C OnReset (Thrown e) s = reset_chain e s"
| "call_handler C (OnStream streamPromise) (Ok v) s = (Ok (VPromise streamPromise), s)"
| "call_handler C OnSilent (Thrown e) s = (Thrown (Error SILENT_ERROR), s)"
| "call_handler C OnResponse (Ok (VStreamResult streamResult)) s =
     (Ok (VPromise (response_promise streamResult)), s)"
| "call_handler C (OnAdmitStream newContent) (Ok (VResponse r)) s = admit_stream C newContent r s"
| "call_handler C OnFinalCatch (Thrown e) s = final_catch e s"
| "call_handler C h out s = (Thrown type_error, s)"

text \<open>One microtask.\<close>

fun run_job :: "collaborators \<Rightarrow> job \<Rightarrow> session \<Rightarrow> session" where
  "run_job C (ReactionJob h out d) s =
     (let (res, s1) = call_handler C h out s
      in case d of None \<Rightarrow> s1 | Some q \<Rightarrow> complete q res s1)"
| "run_job C (ThenableJob p x) s = snd (promise_then x (ResolveFn p) (RejectFn p) s)"

definition tick :: "collaborators \<Rightarrow> session \<Rightarrow> session" where
  "tick C s = (case jobs s of [] \<Rightarrow> s | j # js \<Rightarrow> run_job C j (s\<lparr>jobs := js\<rparr>))"

section \<open>The caller and the environment\<close>

text \<open>Calling an async method runs it up to its first \<open>await\<close> and returns its promise.\<close>

definition call_async :: "(pid \<Rightarrow> cont) \<Rightarrow> session \<Rightarrow> pid \<times> session" where
  "call_async k s =
     (let (rp, s1) = new_promise (Pending []) s
      in (rp, await (sendPromise s1) (k rp) s1))"

definition getHistory :: "session \<Rightarrow> pid \<times> session" where
  "getHistory = call_async K_getHistory"

definition sendMessage :: "request \<Rightarrow> options option \<Rightarrow> session \<Rightarrow> pid \<times> session" where
  "sendMessage request opts = call_async (\<lambda>rp. K_sendMessage rp request (default_options opts))"

definition sendMessageStream :: "request \<Rightarrow> options option \<Rightarrow> session \<Rightarrow> pid \<times> session" where
  "sendMessageStream request opts =
     call_async (\<lambda>rp. K_sendMessageStream rp request (default_options opts))"

definition outstanding :: "call_kind \<Rightarrow> pid \<Rightarrow> session \<Rightarrow> bool" where
  "outstanding k g s = (\<exists>c \<in> set (calls s). call_kind c = k \<and> call_promise c = g)"

fun to_outcome :: "('a \<Rightarrow> val) \<Rightarrow> error + 'a \<Rightarrow> outcome" where
  "to_outcome f (Inl e) = Thrown e"
| "to_outcome f (Inr x) = Ok (f x)"

text \<open>
  What can happen to a session: the caller calls a method, the engine runs the next
  microtask, or the environment settles the promise of a remote call. An opened stream
  brings the promise of its final response, settled by a later event.
\<close>

datatype event =
    GetHistory
  | SendMessage request "options option"
  | SendMessageStream request "options option"
  | Tick
  | UnaryReply pid "error + generate_content_result"
  | StreamReply pid "error + nat"
  | ResponseReply pid "error + response"

fun step :: "collaborators \<Rightarrow> event \<Rightarrow> session \<Rightarrow> session" where
  "step C GetHistory s = snd (getHistory s)"
| "step C (SendMessage request opts) s = snd (sendMessage request opts s)"
| "step C (SendMessageStream request opts) s = snd (sendMessageStream request opts s)"
| "step C Tick s = tick C s"
| "step C (UnaryReply g reply) s =
     (if outstanding Unary g s then settle g (to_outcome VResult reply) s else s)"
| "step C (StreamReply g (Inl e)) s =
     (if outstanding Streaming g s then settle g (Thrown e) s else s)"
| "step C (StreamReply g (Inr h)) s =
     (if outstanding Streaming g s then
        (let (rp, s1) = new_promise (Pending []) s
         in settle g (Ok (VStreamResult \<lparr>stream = h, response_promise = rp\<rparr>))
              (s1\<lparr>responses := responses s1 @ [rp]\<rparr>))
      else s)"
| "step C (ResponseReply p reply) s =
     (if p \<in> set (responses s) then settle p (to_outcome VResponse reply) s else s)"

fun run :: "collaborators \<Rightarrow> event list \<Rightarrow> session \<Rightarrow> session" where
  "run C [] s = s"
| "run C (ev # evs) s = run C evs (step C ev s)"

definition ticks :: "nat \<Rightarrow> event list" where
  "ticks n = replicate n Tick"

section \<open>Reading a run\<close>

text \<open>
  A session is idle when no microtask is queued and the chain's tail is a fulfilled
  promise: no send is in flight.
\<close>

definition idle :: "session \<Rightarrow> bool" where
  "idle s =
     (jobs s = [] \<and> sendPromise s < next_pid s \<and>
      (case promises s (sendPromise s) of Fulfilled v \<Rightarrow> True | Pending rs \<Rightarrow> False | Rejected e \<Rightarrow> False))"

text \<open>The requests of the remote calls dispatched so far, oldest first.\<close>

definition dispatched :: "session \<Rightarrow> content list list" where
  "dispatched s = map (\<lambda>c. contents (call_request c)) (calls s)"

text \<open>\<open>response.candidates[0]\<close> exists.\<close>

definition has_candidate :: "response \<Rightarrow> bool" where
  "has_candidate r = (case candidates r of None \<Rightarrow> False | Some [] \<Rightarrow> False | Some (c # cs) \<Rightarrow> True)"

text \<open>\<open>params?.history\<close>\<close>

definition supplied_history :: "start_chat_params option \<Rightarrow> content list option" where
  "supplied_history ps = (case ps of None \<Rightarrow> None | Some p \<Rightarrow> history p)"

text \<open>
  A whole unary send on an idle session: the call, the three microtasks that take it to
  the dispatched remote call \<open>g\<close>, the reply, and the four microtasks that take the reply
  to the caller.
\<close>

definition unary_send :: "request \<Rightarrow> options option \<Rightarrow> pid \<Rightarrow> error + generate_content_result \<Rightarrow> event list" where
  "unary_send req opts g reply = SendMessage req opts # ticks 3 @ [UnaryReply g reply] @ ticks 4"

text \<open>
  A streaming send on an idle session up to the outcome of the remote call \<open>g\<close>, and the
  final response of an opened stream with the microtasks of its admission.
\<close>

definition stream_send :: "request \<Rightarrow> options option \<Rightarrow> pid \<Rightarrow> error + nat \<Rightarrow> event list" where
  "stream_send req opts g reply = SendMessageStream req opts # ticks 4 @ [StreamReply g reply] @ ticks 6"

definition stream_end :: "pid \<Rightarrow> error + response \<Rightarrow> event list" where
  "stream_end p reply = ResponseReply p reply # ticks 3"

subsection \<open>Collaborators and values for concrete runs\<close>

definition user_turn :: "string \<Rightarrow> content" where
  "user_turn t = \<lparr>parts = Val [TextPart t], role = Val ''user''\<rparr>"

definition model_turn :: "string \<Rightarrow> content" where
  "model_turn t = \<lparr>parts = Val [TextPart t], role = Val ''model''\<rparr>"

definition mock :: collaborators where
  "mock =
     \<lparr>formatNewContent =
        (\<lambda>r. case r of
                RequestString t \<Rightarrow> Inr (user_turn t)
              | RequestArray xs \<Rightarrow> Inl (Error ''unsupported part'')),
      isValidResponse = has_candidate,
      formatBlockErrorMessage = promptFeedback,
      validateChatHistory =
        (\<lambda>h. case h of
                [] \<Rightarrow> None
              | c # cs \<Rightarrow> if role c = Val ''user'' then None
                          else Some (Error ''First content should be with role user''))\<rparr>"

definition reply_text :: "string \<Rightarrow> generate_content_result" where
  "reply_text t =
     \<lparr>response =
        \<lparr>candidates = Some [\<lparr>content = Some \<lparr>parts = Val [TextPart t], role = Absent\<rparr>,
                              finishReason = None\<rparr>],
         promptFeedback = None\<rparr>\<rparr>"

definition blocked :: "string \<Rightarrow> response" where
  "blocked why = \<lparr>candidates = None, promptFeedback = Some why\<rparr>"

definition fresh :: session where
  "fresh =
     \<lparr>apiKey = ''key'', model = ''m'', params = None, requestOptions = Map.empty,
      chat_history = [], sendPromise = 0,
      promises = (\<lambda>_. Pending [])(0 := Fulfilled VUndefined), next_pid = 1,
      jobs = [], finalResult = Map.empty, calls = [], responses = [], console = []\<rparr>"

text \<open>
  A unary send and a streaming send called in the same turn on a new session; the remote
  call of the first fails, the stream of the second opens and ends with the response \<open>r\<close>.
\<close>

definition stream_behind_failed_send :: "response \<Rightarrow> event list" where
  "stream_behind_failed_send r =
     [SendMessage (RequestString ''a'') None, SendMessageStream (RequestString ''b'') None] @
     ticks 5 @ [UnaryReply 12 (Inl (Error ''network''))] @ ticks 9 @
     [StreamReply 6 (Inr 0)] @ ticks 4 @ [ResponseReply 16 (Inr r)] @ ticks 4"

section \<open>Evaluation rules\<close>

text \<open>The state after an allocation, after \<open>then\<close> and after a remote call.\<close>

definition alloc :: "pstate \<Rightarrow> session \<Rightarrow> session" where
  "alloc st s = s\<lparr>promises := (promises s)(next_pid s := st), next_pid := Suc (next_pid s)\<rparr>"

definition then_state :: "pid \<Rightarrow> handler \<Rightarrow> handler \<Rightarrow> session \<Rightarrow> session" where
  "then_state p f r s = perform_then p (Reaction f r (Some (next_pid s))) (alloc (Pending []) s)"

definition remote_state :: "call_kind \<Rightarrow> generate_content_request \<Rightarrow> options \<Rightarrow> session \<Rightarrow> session" where
  "remote_state k req opts s =
     (alloc (Pending []) s)\<lparr>calls := calls s @
        [\<lparr>call_kind = k, call_apiKey = apiKey s, call_model = model s,
          call_request = req, call_options = opts, call_promise = next_pid s\<rparr>]\<rparr>"

text \<open>The diagnostics of a blocked response.\<close>

definition block_warning :: "collaborators \<Rightarrow> string \<Rightarrow> response \<Rightarrow> log list" where
  "block_warning C name r =
     (case formatBlockErrorMessage C r of
        None \<Rightarrow> []
      | Some m \<Rightarrow>
          if m = [] then []
          else [Warn (name @ ''() was unsuccessful. '' @ m @ ''. Inspect response object for details.'')])"

text \<open>The history after is the history before, or that history with two more turns.\<close>

definition grows :: "session \<Rightarrow> session \<Rightarrow> bool" where
  "grows s s' = (chat_history s' = chat_history s \<or> (\<exists>u m. chat_history s' = chat_history s @ [u, m]))"

lemma run_append: "run C (xs @ ys) s = run C ys (run C xs s)"
  by (induction xs arbitrary: s) simp_all

lemma idleD:
  "idle s \<Longrightarrow> jobs s = [] \<and> sendPromise s < next_pid s \<and> (\<exists>v. promises s (sendPromise s) = Fulfilled v)"
  by (auto simp: idle_def split: pstate.splits)

lemma new_promise_alloc: "new_promise st s = (next_pid s, alloc st s)"
  by (simp add: new_promise_def alloc_def)

lemma promise_then_state: "promise_then p f r s = (next_pid s, then_state p f r s)"
  by (simp add: promise_then_def then_state_def new_promise_alloc)

lemma remote_remote_state: "remote k req opts s = (next_pid s, remote_state k req opts s)"
  by (simp add: remote_def remote_state_def new_promise_alloc alloc_def)

lemma next_pid_alloc [simp]: "next_pid (alloc st s) = Suc (next_pid s)"
  by (simp add: alloc_def)

lemma next_pid_perform_then [simp]: "next_pid (perform_then p rc s) = next_pid s"
  by (simp add: perform_then_def enqueue_def split: pstate.splits)

lemma next_pid_then_state [simp]: "next_pid (then_state p f r s) = Suc (next_pid s)"
  by (simp add: then_state_def)

lemma next_pid_remote_state [simp]: "next_pid (remote_state k req opts s) = Suc (next_pid s)"
  by (simp add: remote_state_def)

lemma sendPromise_remote_state [simp]: "sendPromise (remote_state k req opts s) = sendPromise s"
  by (simp add: remote_state_def alloc_def)

text \<open>What the promise operations leave alone.\<close>

lemma alloc_keeps [simp]:
  "chat_history (alloc st s) = chat_history s" "calls (alloc st s) = calls s"
  "console (alloc st s) = console s" "requestOptions (alloc st s) = requestOptions s"
  by (simp_all add: alloc_def)

lemma enqueue_keeps [simp]:
  "chat_history (enqueue j s) = chat_history s" "calls (enqueue j s) = calls s"
  "console (enqueue j s) = console s" "requestOptions (enqueue j s) = requestOptions s"
  by (simp_all add: enqueue_def)

lemma settle_keeps [simp]:
  "chat_history (settle p out s) = chat_history s" "calls (settle p out s) = calls s"
  "console (settle p out s) = console s" "requestOptions (settle p out s) = requestOptions s"
  by (simp_all add: settle_def split: pstate.splits)

lemma resolve_keeps [simp]:
  "chat_history (resolve p v s) = chat_history s" "calls (resolve p v s) = calls s"
  "console (resolve p v s) = console s" "requestOptions (resolve p v s) = requestOptions s"
  by (simp_all add: resolve_def split: val.splits)

lemma complete_keeps [simp]:
  "chat_history (complete p out s) = chat_history s" "calls (complete p out s) = calls s"
  "console (complete p out s) = console s" "requestOptions (complete p out s) = requestOptions s"
  by (simp_all add: complete_def split: outcome.splits)

lemma perform_then_keeps [simp]:
  "chat_history (perform_then p rc s) = chat_history s" "calls (perform_then p rc s) = calls s"
  "console (perform_then p rc s) = console s"
  "requestOptions (perform_then p rc s) = requestOptions s"
  by (simp_all add: perform_then_def split: pstate.splits)

lemma then_state_keeps [simp]:
  "chat_history (then_state p f r s) = chat_history s" "calls (then_state p f r s) = calls s"
  "console (then_state p f r s) = console s"
  "requestOptions (then_state p f r s) = requestOptions s"
  by (simp_all add: then_state_def)

lemma await_keeps [simp]:
  "chat_history (await p k s) = chat_history s" "calls (await p k s) = calls s"
  "console (await p k s) = console s" "requestOptions (await p k s) = requestOptions s"
  by (simp_all add: await_def)

lemma remote_state_keeps [simp]:
  "chat_history (remote_state k req opts s) = chat_history s"
  "console (remote_state k req opts s) = console s"
  "requestOptions (remote_state k req opts s) = requestOptions s"
  by (simp_all add: remote_state_def)

lemma sendMessage_body_line:
  "formatNewContent C request = Inr u \<Longrightarrow>
   sendMessage_body C rp request opts s =
     await (next_pid s + 2) (K_sendMessage_return rp)
       ((then_state (next_pid s + 1) NoHandler OnReset
          (then_state (next_pid s) (OnAdmit u rp) NoHandler
            (then_state (sendPromise s)
               (OnGenerate (build_request u s) (merge_options (requestOptions s) opts))
               NoHandler s)))
        \<lparr>sendPromise := next_pid s + 2\<rparr>)"
  by (simp add: sendMessage_body_def promise_then_state eval_nat_numeral)

lemma sendMessageStream_body_line:
  "formatNewContent C request = Inr u \<Longrightarrow>
   sendMessageStream_body C rp request opts s =
     resolve rp (VPromise (next_pid s))
       ((then_state (next_pid s + 4) NoHandler OnFinalCatch
          (then_state (next_pid s + 3) (OnAdmitStream u) NoHandler
            (then_state (next_pid s + 2) OnResponse NoHandler
              (then_state (next_pid s + 1) NoHandler OnSilent
                (then_state (sendPromise s) (OnStream (next_pid s)) NoHandler
                  (remote_state Streaming (build_request u s)
                     (merge_options (requestOptions s) opts) s))))))
        \<lparr>sendPromise := next_pid s + 5\<rparr>)"
  by (simp add: sendMessageStream_body_def promise_then_state remote_remote_state
        generateContentStream_def eval_nat_numeral)

lemma warn_blocked_console:
  "warn_blocked C name r s = s\<lparr>console := console s @ block_warning C name r\<rparr>"
  by (simp add: warn_blocked_def block_warning_def split: option.splits)

lemma admit_valid:
  "isValidResponse C (response result) \<Longrightarrow> first_content_optional (response result) = Inr c \<Longrightarrow>
   admit C u rp result s =
     (Ok VUndefined,
      s\<lparr>chat_history := chat_history s @ [u, unary_responseContent c],
        finalResult := (finalResult s)(rp \<mapsto> result)\<rparr>)"
  by (simp add: admit_def push_def)

lemma admit_throw:
  "isValidResponse C (response result) \<Longrightarrow> first_content_optional (response result) = Inl e \<Longrightarrow>
   admit C u rp result s = (Thrown e, s\<lparr>chat_history := chat_history s @ [u]\<rparr>)"
  by (simp add: admit_def push_def)

lemma admit_blocked:
  "\<not> isValidResponse C (response result) \<Longrightarrow>
   admit C u rp result s =
     (Ok VUndefined,
      s\<lparr>console := console s @ block_warning C ''sendMessage'' (response result),
        finalResult := (finalResult s)(rp \<mapsto> result)\<rparr>)"
  by (simp add: admit_def warn_blocked_console)

lemma admit_stream_valid:
  "isValidResponse C r \<Longrightarrow> first_content r = Inr c \<Longrightarrow>
   admit_stream C u r s =
     (Ok VUndefined, s\<lparr>chat_history := chat_history s @ [u, stream_responseContent c]\<rparr>)"
  by (simp add: admit_stream_def push_def)

lemma admit_stream_throw:
  "isValidResponse C r \<Longrightarrow> first_content r = Inl e \<Longrightarrow>
   admit_stream C u r s = (Thrown e, s\<lparr>chat_history := chat_history s @ [u]\<rparr>)"
  by (simp add: admit_stream_def push_def)

lemma admit_stream_blocked:
  "\<not> isValidResponse C r \<Longrightarrow>
   admit_stream C u r s =
     (Ok VUndefined, s\<lparr>console := console s @ block_warning C ''sendMessageStream'' r\<rparr>)"
  by (simp add: admit_stream_def warn_blocked_console)

lemmas eval_rules =
  alloc_def then_state_def remote_state_def new_promise_alloc promise_then_state
  remote_remote_state enqueue_def settle_def resolve_def complete_def perform_then_def
  await_def Promise_resolve_def generateContent_def generateContentStream_def
  call_async_def getHistory_def sendMessage_def sendMessageStream_def tick_def
  sendMessage_return_def getHistory_resume_def reset_chain_def final_catch_def
  outstanding_def ticks_def build_request_def param_def
  sendMessage_body_line sendMessageStream_body_line
  unary_send_def stream_send_def stream_end_def eval_nat_numeral

lemma idle_fresh: "idle fresh"
  by (simp add: idle_def fresh_def)

lemma mock_format: "formatNewContent mock (RequestString t) = Inr (user_turn t)"
  by (simp add: mock_def)

section \<open>Properties of every step\<close>

lemma sendMessage_body_history [simp]:
  "chat_history (sendMessage_body C rp req opts s) = chat_history s"
proof (cases "formatNewContent C req")
  case (Inl e)
  then show ?thesis by (simp add: sendMessage_body_def)
next
  case (Inr u)
  then show ?thesis by (simp add: sendMessage_body_line)
qed

lemma sendMessageStream_body_history [simp]:
  "chat_history (sendMessageStream_body C rp req opts s) = chat_history s"
proof (cases "formatNewContent C req")
  case (Inl e)
  then show ?thesis by (simp add: sendMessageStream_body_def)
next
  case (Inr u)
  then show ?thesis by (simp add: sendMessageStream_body_line)
qed

lemma resume_history [simp]: "chat_history (resume C k out s) = chat_history s"
  by (cases k; cases out) (simp_all add: getHistory_resume_def sendMessage_return_def)

lemma call_async_history [simp]: "chat_history (snd (call_async k s)) = chat_history s"
  by (simp add: call_async_def new_promise_alloc)

lemma admit_grows:
  assumes "\<forall>r. isValidResponse C r \<longrightarrow> has_candidate r"
  shows "grows s (snd (admit C u rp result s))"
proof (cases "isValidResponse C (response result)")
  case True
  with assms have "has_candidate (response result)" by blast
  then obtain c cs where "candidates (response result) = Some (c # cs)"
    by (auto simp: has_candidate_def split: option.splits list.splits)
  then have "first_content_optional (response result) = Inr (content c)"
    by (simp add: first_content_optional_def)
  with True show ?thesis by (simp add: admit_valid grows_def)
next
  case False
  then show ?thesis by (simp add: admit_blocked grows_def)
qed

lemma admit_stream_grows:
  assumes "\<forall>r. isValidResponse C r \<longrightarrow> has_candidate r"
  shows "grows s (snd (admit_stream C u r s))"
proof (cases "isValidResponse C r")
  case True
  with assms have "has_candidate r" by blast
  then obtain c cs where "candidates r = Some (c # cs)"
    by (auto simp: has_candidate_def split: option.splits list.splits)
  then have "first_content r = Inr (content c)"
    by (simp add: first_content_def)
  with True show ?thesis by (simp add: admit_stream_valid grows_def)
next
  case False
  then show ?thesis by (simp add: admit_stream_blocked grows_def)
qed

lemma call_handler_grows:
  assumes "\<forall>r. isValidResponse C r \<longrightarrow> has_candidate r"
  shows "grows s (snd (call_handler C h out s))"
  using admit_grows [OF assms] admit_stream_grows [OF assms]
  by (cases "(C, h, out, s)" rule: call_handler.cases)
     (auto simp: grows_def generateContent_def remote_remote_state reset_chain_def
        Promise_resolve_def new_promise_alloc final_catch_def)

lemma run_job_grows:
  assumes "\<forall>r. isValidResponse C r \<longrightarrow> has_candidate r"
  shows "grows s (run_job C j s)"
proof (cases j)
  case (ReactionJob h out d)
  obtain res s1 where c: "call_handler C h out s = (res, s1)" by (cases "call_handler C h out s")
  with call_handler_grows [OF assms, of s h out] have "grows s s1" by simp
  with c ReactionJob show ?thesis by (cases d) (simp_all add: grows_def)
next
  case (ThenableJob p x)
  then show ?thesis by (simp add: grows_def promise_then_state)
qed

lemma step_grows:
  assumes "\<forall>r. isValidResponse C r \<longrightarrow> has_candidate r"
  shows "grows s (step C ev s)"
proof (cases ev)
  case Tick
  show ?thesis
  proof (cases "jobs s")
    case Nil
    with Tick show ?thesis by (simp add: tick_def grows_def)
  next
    case (Cons j js)
    with Tick run_job_grows [OF assms, of "s\<lparr>jobs := js\<rparr>" j] show ?thesis
      by (simp add: tick_def grows_def)
  qed
next
  case (StreamReply g reply)
  then show ?thesis
    by (cases reply) (simp_all add: grows_def new_promise_alloc alloc_def)
qed (simp_all add: grows_def getHistory_def sendMessage_def sendMessageStream_def)

lemma run_even:
  assumes "\<forall>r. isValidResponse C r \<longrightarrow> has_candidate r"
  shows "\<exists>ts. chat_history (run C evs s) = chat_history s @ ts \<and> even (length ts)"
proof (induction evs arbitrary: s)
  case Nil
  show ?case by simp
next
  case (Cons ev evs)
  from Cons.IH [of "step C ev s"] obtain ts where
    ts: "chat_history (run C evs (step C ev s)) = chat_history (step C ev s) @ ts" "even (length ts)"
    by blast
  from step_grows [OF assms, of s ev] show ?case
    unfolding grows_def
  proof
    assume "chat_history (step C ev s) = chat_history s"
    with ts show ?thesis by auto
  next
    assume "\<exists>u m. chat_history (step C ev s) = chat_history s @ [u, m]"
    then obtain u m where "chat_history (step C ev s) = chat_history s @ [u, m]" by blast
    with ts have "chat_history (run C (ev # evs) s) = chat_history s @ ([u, m] @ ts)"
      "even (length ([u, m] @ ts))" by simp_all
    then show ?thesis by blast
  qed
qed

section \<open>Sends on an idle session\<close>

lemma unary_fail_run:
  assumes "idle s" and "formatNewContent C req = Inr u"
  shows "idle (run C (unary_send req opts (next_pid s + 4) (Inl e)) s)"
    and "chat_history (run C (unary_send req opts (next_pid s + 4) (Inl e)) s) = chat_history s"
    and "console (run C (unary_send req opts (next_pid s + 4) (Inl e)) s) = console s"
    and "promises (run C (unary_send req opts (next_pid s + 4) (Inl e)) s) (next_pid s) = Rejected e"
    and "dispatched (run C (unary_send req opts (next_pid s + 4) (Inl e)) s) =
           dispatched s @ [chat_history s @ [u]]"
    and "promises (run C (unary_send req opts (next_pid s + 4) (Inl e)) s)
           (sendPromise (run C (unary_send req opts (next_pid s + 4) (Inl e)) s)) = Fulfilled VUndefined"
proof -
  from idleD [OF assms(1)] obtain v where
    i: "jobs s = []" "sendPromise s < next_pid s" "promises s (sendPromise s) = Fulfilled v"
    by blast
  note ev = i assms(2)
  show "idle (run C (unary_send req opts (next_pid s + 4) (Inl e)) s)"
    using ev by (simp add: idle_def eval_rules)
  show "chat_history (run C (unary_send req opts (next_pid s + 4) (Inl e)) s) = chat_history s"
    using ev by (simp add: eval_rules)
  show "console (run C (unary_send req opts (next_pid s + 4) (Inl e)) s) = console s"
    using ev by (simp add: eval_rules)
  show "promises (run C (unary_send req opts (next_pid s + 4) (Inl e)) s) (next_pid s) = Rejected e"
    using ev by (simp add: eval_rules)
  show "dispatched (run C (unary_send req opts (next_pid s + 4) (Inl e)) s) =
           dispatched s @ [chat_history s @ [u]]"
    using ev by (simp add: eval_rules dispatched_def)
  show "promises (run C (unary_send req opts (next_pid s + 4) (Inl e)) s)
           (sendPromise (run C (unary_send req opts (next_pid s + 4) (Inl e)) s)) = Fulfilled VUndefined"
    using ev by (simp add: eval_rules)
qed

lemma unary_fail_reset_first:
  assumes "idle s" and "formatNewContent C req = Inr u"
  shows "promises (run C (SendMessage req opts # ticks 3 @ [UnaryReply (next_pid s + 4) (Inl e)] @ ticks 3) s)
           (sendPromise (run C (SendMessage req opts # ticks 3 @ [UnaryReply (next_pid s + 4) (Inl e)] @ ticks 3) s))
           = Fulfilled VUndefined"
    and "promises (run C (SendMessage req opts # ticks 3 @ [UnaryReply (next_pid s + 4) (Inl e)] @ ticks 3) s)
           (next_pid s) = Pending []"
proof -
  from idleD [OF assms(1)] obtain v where
    i: "jobs s = []" "sendPromise s < next_pid s" "promises s (sendPromise s) = Fulfilled v"
    by blast
  note ev = i assms(2)
  show "promises (run C (SendMessage req opts # ticks 3 @ [UnaryReply (next_pid s + 4) (Inl e)] @ ticks 3) s)
           (sendPromise (run C (SendMessage req opts # ticks 3 @ [UnaryReply (next_pid s + 4) (Inl e)] @ ticks 3) s))
           = Fulfilled VUndefined"
    using ev by (simp add: eval_rules)
  show "promises (run C (SendMessage req opts # ticks 3 @ [UnaryReply (next_pid s + 4) (Inl e)] @ ticks 3) s)
           (next_pid s) = Pending []"
    using ev by (simp add: eval_rules)
qed

lemma unary_ok_run:
  assumes "idle s" and "formatNewContent C req = Inr u"
    and "isValidResponse C (response result)"
    and "first_content_optional (response result) = Inr c"
  shows "idle (run C (unary_send req opts (next_pid s + 4) (Inr result)) s)"
    and "chat_history (run C (unary_send req opts (next_pid s + 4) (Inr result)) s) =
           chat_history s @ [u, unary_responseContent c]"
    and "console (run C (unary_send req opts (next_pid s + 4) (Inr result)) s) = console s"
    and "promises (run C (unary_send req opts (next_pid s + 4) (Inr result)) s) (next_pid s) =
           Fulfilled (VResult result)"
    and "dispatched (run C (unary_send req opts (next_pid s + 4) (Inr result)) s) =
           dispatched s @ [chat_history s @ [u]]"
proof -
  from idleD [OF assms(1)] obtain v where
    i: "jobs s = []" "sendPromise s < next_pid s" "promises s (sendPromise s) = Fulfilled v"
    by blast
  note ev = i assms(2) admit_valid [OF assms(3,4)]
  show "idle (run C (unary_send req opts (next_pid s + 4) (Inr result)) s)"
    using ev by (simp add: idle_def eval_rules)
  show "chat_history (run C (unary_send req opts (next_pid s + 4) (Inr result)) s) =
           chat_history s @ [u, unary_responseContent c]"
    using ev by (simp add: eval_rules)
  show "console (run C (unary_send req opts (next_pid s + 4) (Inr result)) s) = console s"
    using ev by (simp add: eval_rules)
  show "promises (run C (unary_send req opts (next_pid s + 4) (Inr result)) s) (next_pid s) =
           Fulfilled (VResult result)"
    using ev by (simp add: eval_rules)
  show "dispatched (run C (unary_send req opts (next_pid s + 4) (Inr result)) s) =
           dispatched s @ [chat_history s @ [u]]"
    using ev by (simp add: eval_rules dispatched_def)
qed

lemma unary_blocked_run:
  assumes "idle s" and "formatNewContent C req = Inr u"
    and "\<not> isValidResponse C (response result)"
  shows "idle (run C (unary_send req opts (next_pid s + 4) (Inr result)) s)"
    and "chat_history (run C (unary_send req opts (next_pid s + 4) (Inr result)) s) = chat_history s"
    and "console (run C (unary_send req opts (next_pid s + 4) (Inr result)) s) =
           console s @ block_warning C ''sendMessage'' (response result)"
    and "promises (run C (unary_send req opts (next_pid s + 4) (Inr result)) s) (next_pid s) =
           Fulfilled (VResult result)"
    and "promises (run C (unary_send req opts (next_pid s + 4) (Inr result)) s)
           (sendPromise (run C (unary_send req opts (next_pid s + 4) (Inr result)) s)) = Fulfilled VUndefined"
proof -
  from idleD [OF assms(1)] obtain v where
    i: "jobs s = []" "sendPromise s < next_pid s" "promises s (sendPromise s) = Fulfilled v"
    by blast
  note ev = i assms(2) admit_blocked [OF assms(3)]
  show "idle (run C (unary_send req opts (next_pid s + 4) (Inr result)) s)"
    using ev by (simp add: idle_def eval_rules)
  show "chat_history (run C (unary_send req opts (next_pid s + 4) (Inr result)) s) = chat_history s"
    using ev by (simp add: eval_rules)
  show "console (run C (unary_send req opts (next_pid s + 4) (Inr result)) s) =
           console s @ block_warning C ''sendMessage'' (response result)"
    using ev by (simp add: eval_rules)
  show "promises (run C (unary_send req opts (next_pid s + 4) (Inr result)) s) (next_pid s) =
           Fulfilled (VResult result)"
    using ev by (simp add: eval_rules)
  show "promises (run C (unary_send req opts (next_pid s + 4) (Inr result)) s)
           (sendPromise (run C (unary_send req opts (next_pid s + 4) (Inr result)) s)) = Fulfilled VUndefined"
    using ev by (simp add: eval_rules)
qed



lemma stream_blocked_run:
  assumes "idle s" and "formatNewContent C req = Inr u" and "\<not> isValidResponse C r"
  shows "idle (run C (stream_send req opts (next_pid s + 1) (Inr h) @ stream_end (next_pid s + 9) (Inr r)) s)"
    and "chat_history (run C (stream_send req opts (next_pid s + 1) (Inr h) @ stream_end (next_pid s + 9) (Inr r)) s) =
           chat_history s"
    and "console (run C (stream_send req opts (next_pid s + 1) (Inr h) @ stream_end (next_pid s + 9) (Inr r)) s) =
           console s @ block_warning C ''sendMessageStream'' r"
    and "promises (run C (stream_send req opts (next_pid s + 1) (Inr h) @ stream_end (next_pid s + 9) (Inr r)) s)
           (next_pid s) = Fulfilled (VStreamResult \<lparr>stream = h, response_promise = next_pid s + 9\<rparr>)"
    and "promises (run C (stream_send req opts (next_pid s + 1) (Inr h) @ stream_end (next_pid s + 9) (Inr r)) s)
           (sendPromise (run C (stream_send req opts (next_pid s + 1) (Inr h) @ stream_end (next_pid s + 9) (Inr r)) s)) =
           Fulfilled VUndefined"
proof -
  from idleD [OF assms(1)] obtain v where
    i: "jobs s = []" "sendPromise s < next_pid s" "promises s (sendPromise s) = Fulfilled v"
    by blast
  note ev = i assms(2) admit_stream_blocked [OF assms(3)]
  show "idle (run C (stream_send req opts (next_pid s + 1) (Inr h) @ stream_end (next_pid s + 9) (Inr r)) s)"
    using ev by (simp add: idle_def eval_rules)
  show "chat_history (run C (stream_send req opts (next_pid s + 1) (Inr h) @ stream_end (next_pid s + 9) (Inr r)) s) =
           chat_history s"
    using ev by (simp add: eval_rules)
  show "console (run C (stream_send req opts (next_pid s + 1) (Inr h) @ stream_end (next_pid s + 9) (Inr r)) s) =
           console s @ block_warning C ''sendMessageStream'' r"
    using ev by (simp add: eval_rules)
  show "promises (run C (stream_send req opts (next_pid s + 1) (Inr h) @ stream_end (next_pid s + 9) (Inr r)) s)
           (next_pid s) = Fulfilled (VStreamResult \<lparr>stream = h, response_promise = next_pid s + 9\<rparr>)"
    using ev by (simp add: eval_rules)
  show "promises (run C (stream_send req opts (next_pid s + 1) (Inr h) @ stream_end (next_pid s + 9) (Inr r)) s)
           (sendPromise (run C (stream_send req opts (next_pid s + 1) (Inr h) @ stream_end (next_pid s + 9) (Inr r)) s)) =
           Fulfilled VUndefined"
    using ev by (simp add: eval_rules)
qed



lemma mock_valid_reply: "isValidResponse mock (response (reply_text t))"
  by (simp add: mock_def reply_text_def has_candidate_def)

lemma reply_first_content:
  "first_content_optional (response (reply_text t)) = Inr (Some \<lparr>parts = Val [TextPart t], role = Absent\<rparr>)"
  "first_content (response (reply_text t)) = Inr (Some \<lparr>parts = Val [TextPart t], role = Absent\<rparr>)"
  by (simp_all add: first_content_optional_def first_content_def reply_text_def)

lemmas concrete_rules =
  eval_rules fresh_def mock_format mock_valid_reply reply_first_content admit_valid
  unary_responseContent_def spread_def model_turn_def user_turn_def dispatched_def

section \<open>Construction\<close>

text \<open>
  C9. The constructor fails exactly when a history was supplied and
  \<open>validateChatHistory\<close> rejects it, with the error of the validation. When it succeeds,
  the supplied history is the session's history, a session without a supplied history
  starts with the empty one, and the chain's tail is a promise that is already fulfilled,
  with no microtask queued.
\<close>

theorem ChatSession_construction:
  "(case ChatSession C key m ps ropts of
      Inl e \<Rightarrow> (\<exists>h. supplied_history ps = Some h \<and> validateChatHistory C h = Some e)
    | Inr s \<Rightarrow>
        (case supplied_history ps of
           None \<Rightarrow> chat_history s = []
         | Some h \<Rightarrow> validateChatHistory C h = None \<and> chat_history s = h) \<and>
        promises s (sendPromise s) = Fulfilled VUndefined \<and> idle s)"
  by (auto simp: ChatSession_def supplied_history_def idle_def Let_def split: option.splits)

theorem ChatSession_construction_witness:
  "ChatSession mock ''key'' ''m'' None None = Inr fresh \<and> idle fresh \<and>
   ChatSession mock ''key'' ''m''
     (Some \<lparr>history = Some [model_turn ''hi''], safetySettings = None, generationConfig = None,
            tools = None, toolConfig = None, systemInstruction = None, cachedContent = None\<rparr>) None =
     Inl (Error ''First content should be with role user'') \<and>
   (case ChatSession mock ''key'' ''m''
           (Some \<lparr>history = Some [user_turn ''hi''], safetySettings = None, generationConfig = None,
              tools = None, toolConfig = None, systemInstruction = None, cachedContent = None\<rparr>) None of
      Inl e \<Rightarrow> False
    | Inr s \<Rightarrow> chat_history s = [user_turn ''hi''] \<and> idle s)"
  using ChatSession_construction [where C = mock and key = "''key''" and m = "''m''" and ropts = None
     and ps = "Some \<lparr>history = Some [user_turn ''hi''], safetySettings = None, generationConfig = None,
              tools = None, toolConfig = None, systemInstruction = None, cachedContent = None\<rparr>"]
  by (simp add: ChatSession_def mock_def fresh_def idle_def default_options_def model_turn_def
        user_turn_def supplied_history_def)

section \<open>Request options\<close>

text \<open>
  C8. The options handed to the remote call are the shallow merge of the session's
  options with the options of the call: on an idle session the call dispatched by
  \<open>sendMessage\<close> and the one dispatched by \<open>sendMessageStream\<close> carry
  \<open>merge_options (requestOptions s) opts\<close>; in any state the body of
  \<open>sendMessageStream\<close> dispatches its call with that merge; and in the merge a property
  of the call's options wins, a property of neither is absent.
\<close>

theorem request_options_shallow_merge:
  assumes "idle s" and "formatNewContent C req = Inr u"
  shows "map call_options (calls (run C (SendMessage req opts # ticks 2) s)) =
           map call_options (calls s) @ [merge_options (requestOptions s) (default_options opts)] \<and>
         map call_options (calls (run C (SendMessageStream req opts # ticks 1) s)) =
           map call_options (calls s) @ [merge_options (requestOptions s) (default_options opts)] \<and>
         map call_options (calls (sendMessageStream_body C rp req o2 s2)) =
           map call_options (calls s2) @ [merge_options (requestOptions s2) o2] \<and>
         (\<forall>a b k. merge_options a b k = (case b k of Some v \<Rightarrow> Some v | None \<Rightarrow> a k))"
proof -
  from idleD [OF assms(1)] obtain v where
    i: "jobs s = []" "sendPromise s < next_pid s" "promises s (sendPromise s) = Fulfilled v"
    by blast
  have 1: "map call_options (calls (run C (SendMessage req opts # ticks 2) s)) =
           map call_options (calls s) @ [merge_options (requestOptions s) (default_options opts)]"
    using i assms(2) by (simp add: eval_rules)
  have 2: "map call_options (calls (run C (SendMessageStream req opts # ticks 1) s)) =
           map call_options (calls s) @ [merge_options (requestOptions s) (default_options opts)]"
    using i assms(2) by (simp add: eval_rules)
  have 3: "map call_options (calls (sendMessageStream_body C rp req o2 s2)) =
           map call_options (calls s2) @ [merge_options (requestOptions s2) o2]"
    using assms(2)
    by (simp add: sendMessageStream_body_line remote_state_def)
  have 4: "\<forall>a b k. merge_options a b k = (case b k of Some v \<Rightarrow> Some v | None \<Rightarrow> a k)"
    by (simp add: merge_options_def map_add_def)
  from 1 2 3 4 show ?thesis by blast
qed

theorem request_options_shallow_merge_witness:
  "idle fresh \<and> formatNewContent mock (RequestString ''hello'') = Inr (user_turn ''hello'') \<and>
   map call_options
     (calls (run mock (SendMessage (RequestString ''hello'') (Some [''timeout'' \<mapsto> JNum 5]) # ticks 2)
        (fresh\<lparr>requestOptions := [''timeout'' \<mapsto> JNum 9, ''apiVersion'' \<mapsto> JStr ''v1'']\<rparr>))) =
     [[''timeout'' \<mapsto> JNum 5, ''apiVersion'' \<mapsto> JStr ''v1'']]"
proof -
  let ?s = "fresh\<lparr>requestOptions := [''timeout'' \<mapsto> JNum 9, ''apiVersion'' \<mapsto> JStr ''v1'']\<rparr>"
  have i: "idle ?s" by (simp add: idle_def fresh_def)
  have m: "merge_options [''timeout'' \<mapsto> JNum 9, ''apiVersion'' \<mapsto> JStr ''v1''] [''timeout'' \<mapsto> JNum 5] =
           [''timeout'' \<mapsto> JNum 5, ''apiVersion'' \<mapsto> JStr ''v1'']"
    by (auto simp: merge_options_def map_add_def fun_eq_iff)
  have c: "calls ?s = []" "requestOptions ?s = [''timeout'' \<mapsto> JNum 9, ''apiVersion'' \<mapsto> JStr ''v1'']"
    by (simp_all add: fresh_def)
  show ?thesis
    using request_options_shallow_merge [OF i mock_format [of "''hello''"],
        where opts = "Some [''timeout'' \<mapsto> JNum 5]"]
    by (simp add: idle_fresh mock_format c m default_options_def)
qed

section \<open>The model turn\<close>

text \<open>
  C7. On both paths, when the response is valid and the content of its first candidate
  has no \<open>role\<close> property (or the candidate has no content at all), the admission step
  appends the user turn and then a model turn whose role is \<open>model\<close>.
\<close>

theorem model_role_defaults:
  assumes "isValidResponse C (response result)"
    and "candidates (response result) = Some (c # cs)"
    and "content c = None \<or> (\<exists>ct. content c = Some ct \<and> role ct = Absent)"
  shows "(\<exists>m. chat_history (snd (admit C u rp result s)) = chat_history s @ [u, m] \<and>
               role m = Val ''model'') \<and>
         (\<exists>m. chat_history (snd (admit_stream C u (response result) s)) = chat_history s @ [u, m] \<and>
               role m = Val ''model'')"
  using assms
  by (auto simp: admit_def admit_stream_def push_def first_content_def first_content_optional_def
        unary_responseContent_def stream_responseContent_def spread_def role_falsy_def Let_def)

theorem model_role_defaults_witness:
  "isValidResponse mock (response (reply_text ''hi'')) \<and>
   (\<exists>m. chat_history (snd (admit mock (user_turn ''hello'') 1 (reply_text ''hi'') fresh)) =
          chat_history fresh @ [user_turn ''hello'', m] \<and> role m = Val ''model'') \<and>
   (\<exists>m. chat_history (snd (admit_stream mock (user_turn ''hello'') (response (reply_text ''hi'')) fresh)) =
          chat_history fresh @ [user_turn ''hello'', m] \<and> role m = Val ''model'')"
  using model_role_defaults [where C = mock and result = "reply_text ''hi''" and cs = "[]" and rp = 1
      and c = "\<lparr>content = Some \<lparr>parts = Val [TextPart ''hi''], role = Absent\<rparr>, finishReason = None\<rparr>"
      and u = "user_turn ''hello''" and s = fresh]
  by (simp add: mock_def reply_text_def has_candidate_def)

text \<open>
  C10. On the unary path the model turn of a valid response is the object
  \<open>{parts: [], role: "model"}\<close> overridden property by property by the content of the
  first candidate. A content without \<open>parts\<close> is stored with the empty list of parts on
  the unary path and without \<open>parts\<close> on the streaming path; a content whose \<open>role\<close> is
  there and \<open>undefined\<close> keeps that role on the unary path, while the streaming path
  stores \<open>model\<close>.
\<close>

theorem unary_model_turn_spread:
  assumes "isValidResponse C (response result)"
    and "candidates (response result) = Some (c # cs)"
    and "content c = Some ct"
  shows "chat_history (snd (admit C u rp result s)) =
           chat_history s @
             [u, \<lparr>parts = (if parts ct = Absent then Val [] else parts ct),
                  role = (if role ct = Absent then Val ''model'' else role ct)\<rparr>] \<and>
         (parts ct = Absent \<longrightarrow>
            parts (last (chat_history (snd (admit C u rp result s)))) = Val [] \<and>
            parts (last (chat_history (snd (admit_stream C u (response result) s)))) = Absent) \<and>
         (role ct = Undefined \<longrightarrow>
            role (last (chat_history (snd (admit C u rp result s)))) = Undefined \<and>
            role (last (chat_history (snd (admit_stream C u (response result) s)))) = Val ''model'')"
  using assms
  by (simp add: admit_def admit_stream_def push_def first_content_def first_content_optional_def
        unary_responseContent_def stream_responseContent_def spread_def role_falsy_def Let_def)

theorem unary_model_turn_spread_witness:
  "isValidResponse mock
     \<lparr>candidates = Some [\<lparr>content = Some \<lparr>parts = Absent, role = Undefined\<rparr>, finishReason = None\<rparr>],
      promptFeedback = None\<rparr> \<and>
   chat_history (snd (admit mock (user_turn ''hello'') 1
      \<lparr>response =
         \<lparr>candidates = Some [\<lparr>content = Some \<lparr>parts = Absent, role = Undefined\<rparr>, finishReason = None\<rparr>],
          promptFeedback = None\<rparr>\<rparr> fresh)) =
     [user_turn ''hello'', \<lparr>parts = Val [], role = Undefined\<rparr>] \<and>
   chat_history (snd (admit_stream mock (user_turn ''hello'')
      \<lparr>candidates = Some [\<lparr>content = Some \<lparr>parts = Absent, role = Undefined\<rparr>, finishReason = None\<rparr>],
       promptFeedback = None\<rparr> fresh)) =
     [user_turn ''hello'', \<lparr>parts = Absent, role = Val ''model''\<rparr>]"
  using unary_model_turn_spread [where C = mock and cs = "[]" and rp = 1 and s = fresh
      and result = "\<lparr>response = \<lparr>candidates = Some [\<lparr>content = Some \<lparr>parts = Absent, role = Undefined\<rparr>, finishReason = None\<rparr>], promptFeedback = None\<rparr>\<rparr>"
      and c = "\<lparr>content = Some \<lparr>parts = Absent, role = Undefined\<rparr>, finishReason = None\<rparr>"
      and ct = "\<lparr>parts = Absent, role = Undefined\<rparr>" and u = "user_turn ''hello''"]
  by (simp add: mock_def has_candidate_def fresh_def admit_stream_def push_def first_content_def
       stream_responseContent_def spread_def role_falsy_def)

section \<open>History\<close>

text \<open>
  C2. A streaming send that completes with a valid response and appends nothing. It is
  called in the same turn as a unary send, so its link is chained onto the link of that
  send; the remote call of the unary send fails, its \<open>catch\<close> throws the error again, and
  the first \<open>catch\<close> of the streaming chain takes that rejection for a failure of its own
  call. The caller of the streaming send receives the stream, the final response is
  valid, the queue is empty, and the history is still empty.
\<close>

theorem valid_stream_behind_failed_send_not_admitted:
  "isValidResponse mock (response (reply_text ''B'')) \<and>
   promises (run mock (stream_behind_failed_send (response (reply_text ''B''))) fresh) 1 =
     Rejected (Error ''network'') \<and>
   promises (run mock (stream_behind_failed_send (response (reply_text ''B''))) fresh) 2 =
     Fulfilled (VStreamResult \<lparr>stream = 0, response_promise = 16\<rparr>) \<and>
   promises (run mock (stream_behind_failed_send (response (reply_text ''B''))) fresh) 16 =
     Fulfilled (VResponse (response (reply_text ''B''))) \<and>
   promises (run mock (stream_behind_failed_send (response (reply_text ''B''))) fresh) 8 =
     Rejected (Error SILENT_ERROR) \<and>
   jobs (run mock (stream_behind_failed_send (response (reply_text ''B''))) fresh) = [] \<and>
   chat_history (run mock (stream_behind_failed_send (response (reply_text ''B''))) fresh) = []"
proof -
  have 0: "isValidResponse mock (response (reply_text ''B''))" by (rule mock_valid_reply)
  have 1: "promises (run mock (stream_behind_failed_send (response (reply_text ''B''))) fresh) 1 =
     Rejected (Error ''network'')"
    by (simp add: stream_behind_failed_send_def concrete_rules SILENT_ERROR_def)
  have 2: "promises (run mock (stream_behind_failed_send (response (reply_text ''B''))) fresh) 2 =
     Fulfilled (VStreamResult \<lparr>stream = 0, response_promise = 16\<rparr>)"
    by (simp add: stream_behind_failed_send_def concrete_rules SILENT_ERROR_def)
  have 3: "promises (run mock (stream_behind_failed_send (response (reply_text ''B''))) fresh) 16 =
     Fulfilled (VResponse (response (reply_text ''B'')))"
    by (simp add: stream_behind_failed_send_def concrete_rules SILENT_ERROR_def)
  have 4: "promises (run mock (stream_behind_failed_send (response (reply_text ''B''))) fresh) 8 =
     Rejected (Error SILENT_ERROR)"
    by (simp add: stream_behind_failed_send_def concrete_rules SILENT_ERROR_def)
  have 5: "jobs (run mock (stream_behind_failed_send (response (reply_text ''B''))) fresh) = []"
    by (simp add: stream_behind_failed_send_def concrete_rules SILENT_ERROR_def)
  have 6: "chat_history (run mock (stream_behind_failed_send (response (reply_text ''B''))) fresh) = []"
    by (simp add: stream_behind_failed_send_def concrete_rules SILENT_ERROR_def)
  from 0 1 2 3 4 5 6 show ?thesis by blast
qed

section \<open>Failures\<close>

text \<open>
  C3. A unary send on an idle session whose remote call fails: when the \<open>catch\<close> of the
  chain has run, the tail is a fresh fulfilled promise while the promise of the caller is
  still pending; one microtask later the caller's promise is rejected with the error of
  the remote call, the history is what it was, and the session is idle again. A send
  issued after that dispatches a request built from that history and its own turn, and
  its caller receives the result. In any state the \<open>catch\<close> sets the tail to a fulfilled
  promise, leaves the history alone and throws the error again.
\<close>

theorem unary_failure_resets_chain:
  fixes s :: session and opts opts' :: "options option" and e :: error
  assumes "idle s" and "formatNewContent C req = Inr u" and "formatNewContent C req' = Inr u'"
    and "isValidResponse C (response result)"
    and "first_content_optional (response result) = Inr c"
  defines "caught \<equiv> run C (SendMessage req opts # ticks 3 @ [UnaryReply (next_pid s + 4) (Inl e)] @ ticks 3) s"
    and "failed \<equiv> run C (unary_send req opts (next_pid s + 4) (Inl e)) s"
  defines "later \<equiv> run C (unary_send req' opts' (next_pid failed + 4) (Inr result)) failed"
  shows "promises caught (sendPromise caught) = Fulfilled VUndefined \<and>
         promises caught (next_pid s) = Pending [] \<and>
         promises failed (next_pid s) = Rejected e \<and>
         chat_history failed = chat_history s \<and>
         idle failed \<and>
         dispatched later = dispatched s @ [chat_history s @ [u], chat_history s @ [u']] \<and>
         promises later (next_pid failed) = Fulfilled (VResult result) \<and>
         chat_history later = chat_history s @ [u', unary_responseContent c] \<and>
         fst (reset_chain err st) = Thrown err \<and>
         promises (snd (reset_chain err st)) (sendPromise (snd (reset_chain err st))) =
           Fulfilled VUndefined \<and>
         chat_history (snd (reset_chain err st)) = chat_history st"
proof -
  note f = unary_fail_run [OF assms(1,2), of opts e, folded failed_def]
  note r = unary_fail_reset_first [OF assms(1,2), of opts e, folded caught_def]
  note l = unary_ok_run [OF f(1) assms(3,4,5), of opts', folded later_def]
  have c: "fst (reset_chain err st) = Thrown err"
    "promises (snd (reset_chain err st)) (sendPromise (snd (reset_chain err st))) = Fulfilled VUndefined"
    "chat_history (snd (reset_chain err st)) = chat_history st"
    by (simp_all add: reset_chain_def Promise_resolve_def new_promise_alloc alloc_def)
  from f r l c show ?thesis by simp
qed

theorem unary_failure_resets_chain_witness:
  "idle fresh \<and>
   formatNewContent mock (RequestString ''a'') = Inr (user_turn ''a'') \<and>
   formatNewContent mock (RequestString ''b'') = Inr (user_turn ''b'') \<and>
   isValidResponse mock (response (reply_text ''hi'')) \<and>
   promises (run mock (unary_send (RequestString ''a'') None 5 (Inl (Error ''network''))) fresh) 1 =
     Rejected (Error ''network'') \<and>
   idle (run mock (unary_send (RequestString ''a'') None 5 (Inl (Error ''network''))) fresh) \<and>
   dispatched
     (run mock
        (unary_send (RequestString ''b'') None
           (next_pid (run mock (unary_send (RequestString ''a'') None 5 (Inl (Error ''network''))) fresh) + 4)
           (Inr (reply_text ''hi'')))
        (run mock (unary_send (RequestString ''a'') None 5 (Inl (Error ''network''))) fresh)) =
     [[user_turn ''a''], [user_turn ''b'']]"
proof -
  have d: "dispatched fresh = []" "chat_history fresh = []" "next_pid fresh = 1"
    by (simp_all add: dispatched_def fresh_def)
  from unary_failure_resets_chain [OF idle_fresh mock_format [of "''a''"] mock_format [of "''b''"]
      mock_valid_reply [of "''hi''"] reply_first_content(1) [of "''hi''"],
      where opts = None and opts' = None and e = "Error ''network''"
        and err = "Error ''network''" and st = fresh]
  show ?thesis
    by (simp add: d idle_fresh mock_format mock_valid_reply)
qed

text \<open>
  C4. A streaming send whose remote call succeeds and whose response is blocked with an
  explanation that is not empty, and no warning. It is called in the same turn as a
  unary send whose remote call fails, so its admission step is skipped as in C2: the
  caller receives the stream, the final response is the blocked one, the queue is empty
  and the console is empty. The same send alone on a new session writes the warning.
\<close>

theorem blocked_stream_behind_failed_send_not_warned:
  "\<not> isValidResponse mock (blocked ''SAFETY'') \<and>
   formatBlockErrorMessage mock (blocked ''SAFETY'') = Some ''SAFETY'' \<and>
   promises (run mock (stream_behind_failed_send (blocked ''SAFETY'')) fresh) 2 =
     Fulfilled (VStreamResult \<lparr>stream = 0, response_promise = 16\<rparr>) \<and>
   promises (run mock (stream_behind_failed_send (blocked ''SAFETY'')) fresh) 16 =
     Fulfilled (VResponse (blocked ''SAFETY'')) \<and>
   jobs (run mock (stream_behind_failed_send (blocked ''SAFETY'')) fresh) = [] \<and>
   console (run mock (stream_behind_failed_send (blocked ''SAFETY'')) fresh) = [] \<and>
   console (run mock (stream_send (RequestString ''b'') None 2 (Inr 0) @
                      stream_end 10 (Inr (blocked ''SAFETY''))) fresh) =
     [Warn ''sendMessageStream() was unsuccessful. SAFETY. Inspect response object for details.'']"
proof -
  have v: "\<not> isValidResponse mock (blocked ''SAFETY'')"
    by (simp add: mock_def blocked_def has_candidate_def)
  have m: "formatBlockErrorMessage mock (blocked ''SAFETY'') = Some ''SAFETY''"
    by (simp add: mock_def blocked_def)
  have 2: "promises (run mock (stream_behind_failed_send (blocked ''SAFETY'')) fresh) 2 =
     Fulfilled (VStreamResult \<lparr>stream = 0, response_promise = 16\<rparr>)"
    by (simp add: stream_behind_failed_send_def concrete_rules SILENT_ERROR_def)
  have 3: "promises (run mock (stream_behind_failed_send (blocked ''SAFETY'')) fresh) 16 =
     Fulfilled (VResponse (blocked ''SAFETY''))"
    by (simp add: stream_behind_failed_send_def concrete_rules SILENT_ERROR_def)
  have 4: "jobs (run mock (stream_behind_failed_send (blocked ''SAFETY'')) fresh) = []"
    by (simp add: stream_behind_failed_send_def concrete_rules SILENT_ERROR_def)
  have 5: "console (run mock (stream_behind_failed_send (blocked ''SAFETY'')) fresh) = []"
    by (simp add: stream_behind_failed_send_def concrete_rules SILENT_ERROR_def)
  have 6: "console (run mock (stream_send (RequestString ''b'') None 2 (Inr 0) @
                      stream_end 10 (Inr (blocked ''SAFETY''))) fresh) =
     [Warn ''sendMessageStream() was unsuccessful. SAFETY. Inspect response object for details.'']"
    using admit_stream_blocked [OF v] m
    by (simp add: concrete_rules block_warning_def)
  from v m 2 3 4 5 6 show ?thesis by blast
qed



section \<open>Calls in the same turn\<close>

text \<open>
  C1. Two sends called one after the other without an \<open>await\<close>, on a new session. Both
  resume from their first \<open>await\<close> before any remote call is made, so the request of the
  second holds its own turn only: after the first send was admitted the history has its
  two turns, and the second request, dispatched then, still has one turn. The admissions
  follow in order. When the second send is streaming, its remote call is even dispatched
  before the one of the first send.
\<close>

theorem concurrent_sends_stale_request:
  "chat_history
     (run mock ([SendMessage (RequestString ''a'') None, SendMessage (RequestString ''b'') None] @
                ticks 4 @ [UnaryReply 9 (Inr (reply_text ''A''))] @ ticks 6) fresh) =
     [user_turn ''a'', model_turn ''A''] \<and>
   dispatched
     (run mock ([SendMessage (RequestString ''a'') None, SendMessage (RequestString ''b'') None] @
                ticks 4 @ [UnaryReply 9 (Inr (reply_text ''A''))] @ ticks 6) fresh) =
     [[user_turn ''a''], [user_turn ''b'']] \<and>
   chat_history
     (run mock ([SendMessage (RequestString ''a'') None, SendMessage (RequestString ''b'') None] @
                ticks 4 @ [UnaryReply 9 (Inr (reply_text ''A''))] @ ticks 6 @
                [UnaryReply 11 (Inr (reply_text ''B''))] @ ticks 4) fresh) =
     [user_turn ''a'', model_turn ''A'', user_turn ''b'', model_turn ''B''] \<and>
   dispatched
     (run mock ([SendMessage (RequestString ''a'') None, SendMessageStream (RequestString ''b'') None] @
                ticks 2) fresh) =
     [[user_turn ''b'']]"
proof -
  have 1: "chat_history
     (run mock ([SendMessage (RequestString ''a'') None, SendMessage (RequestString ''b'') None] @
                ticks 4 @ [UnaryReply 9 (Inr (reply_text ''A''))] @ ticks 6) fresh) =
     [user_turn ''a'', model_turn ''A'']"
    by (simp add: concrete_rules)
  have 2: "dispatched
     (run mock ([SendMessage (RequestString ''a'') None, SendMessage (RequestString ''b'') None] @
                ticks 4 @ [UnaryReply 9 (Inr (reply_text ''A''))] @ ticks 6) fresh) =
     [[user_turn ''a''], [user_turn ''b'']]"
    by (simp add: concrete_rules)
  have 3: "chat_history
     (run mock ([SendMessage (RequestString ''a'') None, SendMessage (RequestString ''b'') None] @
                ticks 4 @ [UnaryReply 9 (Inr (reply_text ''A''))] @ ticks 6 @
                [UnaryReply 11 (Inr (reply_text ''B''))] @ ticks 4) fresh) =
     [user_turn ''a'', model_turn ''A'', user_turn ''b'', model_turn ''B'']"
    by (simp add: concrete_rules)
  have 4: "dispatched
     (run mock ([SendMessage (RequestString ''a'') None, SendMessageStream (RequestString ''b'') None] @
                ticks 2) fresh) =
     [[user_turn ''b'']]"
    by (simp add: concrete_rules)
  from 1 2 3 4 show ?thesis by blast
qed

text \<open>
  C6. \<open>sendMessage\<close> and then \<open>getHistory\<close>, called without an \<open>await\<close> between them on
  a new session: \<open>getHistory\<close> is fulfilled with the empty history after two microtasks,
  when the remote call of the send has not been dispatched; the send is admitted later.
  When one microtask runs between the two calls, \<open>getHistory\<close> waits for the send and
  is fulfilled with both turns.
\<close>

theorem getHistory_misses_send_in_same_turn:
  "promises
     (run mock ([SendMessage (RequestString ''hello'') None, GetHistory] @ ticks 2) fresh) 2 =
     Fulfilled (VHistory []) \<and>
   calls (run mock ([SendMessage (RequestString ''hello'') None, GetHistory] @ ticks 2) fresh) = [] \<and>
   chat_history
     (run mock ([SendMessage (RequestString ''hello'') None, GetHistory] @ ticks 4 @
                [UnaryReply 6 (Inr (reply_text ''hi''))] @ ticks 4) fresh) =
     [user_turn ''hello'', model_turn ''hi''] \<and>
   promises
     (run mock ([SendMessage (RequestString ''hello'') None, GetHistory] @ ticks 4 @
                [UnaryReply 6 (Inr (reply_text ''hi''))] @ ticks 4) fresh) 1 =
     Fulfilled (VResult (reply_text ''hi'')) \<and>
   promises
     (run mock ([SendMessage (RequestString ''hello'') None, Tick, GetHistory] @ ticks 3 @
                [UnaryReply 6 (Inr (reply_text ''hi''))] @ ticks 5) fresh) 5 =
     Fulfilled (VHistory [user_turn ''hello'', model_turn ''hi''])"
proof -
  have 1: "promises
     (run mock ([SendMessage (RequestString ''hello'') None, GetHistory] @ ticks 2) fresh) 2 =
     Fulfilled (VHistory [])"
    by (simp add: concrete_rules)
  have 2: "calls (run mock ([SendMessage (RequestString ''hello'') None, GetHistory] @ ticks 2) fresh) = []"
    by (simp add: concrete_rules)
  have 3: "chat_history
     (run mock ([SendMessage (RequestString ''hello'') None, GetHistory] @ ticks 4 @
                [UnaryReply 6 (Inr (reply_text ''hi''))] @ ticks 4) fresh) =
     [user_turn ''hello'', model_turn ''hi'']"
    by (simp add: concrete_rules)
  have 4: "promises
     (run mock ([SendMessage (RequestString ''hello'') None, GetHistory] @ ticks 4 @
                [UnaryReply 6 (Inr (reply_text ''hi''))] @ ticks 4) fresh) 1 =
     Fulfilled (VResult (reply_text ''hi''))"
    by (simp add: concrete_rules)
  have 5: "promises
     (run mock ([SendMessage (RequestString ''hello'') None, Tick, GetHistory] @ ticks 3 @
                [UnaryReply 6 (Inr (reply_text ''hi''))] @ ticks 5) fresh) 5 =
     Fulfilled (VHistory [user_turn ''hello'', model_turn ''hi''])"
    by (simp add: concrete_rules)
  from 1 2 3 4 5 show ?thesis by blast
qed

end
